theory Spec2Isabelle
  imports Main "HOL-Library.Word"
begin

section \<open>Native and Java scalar types\<close>

text \<open>
  The bridge passes native buffer addresses through Java \<open>int\<close> arrays, so it is written
  for a platform whose pointers are 32 bits wide (ILP32): \<open>long\<close>, \<open>size_t\<close>,
  \<open>ssize_t\<close> and \<open>void*\<close> are 32-bit words. \<open>jint\<close> is 32 bits and \<open>jlong\<close> 64 bits by the
  JNI definition. The width of \<open>off_t\<close> differs between the platforms the file compiles for
  (32 bits with the Linux C library, 64 bits with the OS X adapter), so it stays a type
  parameter \<open>'o word\<close>.
\<close>

type_synonym jint = "32 word"
type_synonym jlong = "64 word"
type_synonym cint = "32 word"
type_synonym long = "32 word"
type_synonym ssize_t = "32 word"
type_synonym size_t = "32 word"
type_synonym pointer = "32 word"

text \<open>\<open>struct iovec\<close> of \<open>sys/uio.h\<close>.\<close>

record iovec =
  iov_base :: pointer
  iov_len :: size_t

text \<open>
  The implicit and explicit conversions of the source. A conversion to a type of the same
  or a smaller width keeps the low bits, a conversion from a signed type to a wider one
  sign-extends; \<open>scast\<close> is both.
\<close>

definition pointer_of_jint :: "jint \<Rightarrow> pointer" where
  "pointer_of_jint x = scast x"

definition size_t_of_jint :: "jint \<Rightarrow> size_t" where
  "size_t_of_jint x = scast x"

definition jlong_of_long :: "long \<Rightarrow> jlong" where
  "jlong_of_long x = scast x"

definition jlong_of_ssize_t :: "ssize_t \<Rightarrow> jlong" where
  "jlong_of_ssize_t x = scast x"

definition size_t_of_jlong :: "jlong \<Rightarrow> size_t" where
  "size_t_of_jlong x = scast x"

definition off_t_of_jlong :: "jlong \<Rightarrow> 'o::len word" where
  "off_t_of_jlong x = scast x"

section \<open>The environment of a native call\<close>

text \<open>Java references are opaque handles.\<close>

type_synonym jintArray = nat
type_synonym jobject = nat

datatype throwable = OutOfMemoryError | NullPointerException | IOException cint

text \<open>The system calls the bridge performs, with their arguments.\<close>

datatype 'off syscall =
    Readv cint "iovec list" cint
  | Writev cint "iovec list" cint
  | Sendfile cint cint 'off size_t

text \<open>
  What the entry points use and do not define: the allocator, the pinning of Java arrays,
  the resolution of a \<open>FileDescriptor\<close> object and the three system calls. Each is a
  parameter. A system call answers with its return value and the value of \<open>errno\<close> after it.
\<close>

record 'off platform =
  new_iovec :: "jint \<Rightarrow> bool"
  GetIntArrayElements :: "jintArray \<Rightarrow> throwable + jint list"
  jniGetFDFromFileDescriptor :: "jobject \<Rightarrow> cint"
  readv :: "cint \<Rightarrow> iovec list \<Rightarrow> cint \<Rightarrow> ssize_t \<times> cint"
  writev :: "cint \<Rightarrow> iovec list \<Rightarrow> cint \<Rightarrow> ssize_t \<times> cint"
  sendfile :: "cint \<Rightarrow> cint \<Rightarrow> 'off \<Rightarrow> size_t \<Rightarrow> ssize_t \<times> cint"

text \<open>
  The state a call can change: the exception pending in the \<open>JNIEnv\<close>, the thread's
  \<open>errno\<close>, and the system calls performed so far.
\<close>

record 'off JNIEnv =
  exception :: "throwable option"
  errno :: cint
  syscalls :: "'off syscall list"

text \<open>
  Modelled from the spec: \<open>jniThrowOutOfMemoryError\<close> and \<open>jniThrowIOException\<close>
  (\<open>JNIHelp.h\<close>, \<open>JniException.h\<close>, not under src/) raise the out-of-memory signal and the
  I/O failure carrying the given error code.
\<close>

definition jniThrowOutOfMemoryError :: "'off JNIEnv \<Rightarrow> 'off JNIEnv" where
  "jniThrowOutOfMemoryError env = env\<lparr>exception := Some OutOfMemoryError\<rparr>"

definition jniThrowIOException :: "'off JNIEnv \<Rightarrow> cint \<Rightarrow> 'off JNIEnv" where
  "jniThrowIOException env code = env\<lparr>exception := Some (IOException code)\<rparr>"

text \<open>
  Modelled from the spec: \<open>ScopedIntArrayRO\<close> (\<open>ScopedPrimitiveArray.h\<close>, not under src/)
  gives read access to the elements of a Java array; when the array cannot be accessed
  its \<open>get()\<close> is \<open>NULL\<close> and the failure of the access step is pending.
\<close>

definition ScopedIntArrayRO ::
  "'off platform \<Rightarrow> 'off JNIEnv \<Rightarrow> jintArray \<Rightarrow> jint list option \<times> 'off JNIEnv" where
  "ScopedIntArrayRO P env javaArray =
     (case GetIntArrayElements P javaArray of
        Inl t \<Rightarrow> (None, env\<lparr>exception := Some t\<rparr>)
      | Inr elements \<Rightarrow> (Some elements, env))"

text \<open>Performing a system call records it and sets \<open>errno\<close>.\<close>

definition call_readv ::
  "'off platform \<Rightarrow> 'off JNIEnv \<Rightarrow> cint \<Rightarrow> iovec list \<Rightarrow> cint \<Rightarrow> ssize_t \<times> 'off JNIEnv" where
  "call_readv P env fd vectors n =
     (fst (readv P fd vectors n),
      env\<lparr>errno := snd (readv P fd vectors n),
          syscalls := syscalls env @ [Readv fd vectors n]\<rparr>)"

definition call_writev ::
  "'off platform \<Rightarrow> 'off JNIEnv \<Rightarrow> cint \<Rightarrow> iovec list \<Rightarrow> cint \<Rightarrow> ssize_t \<times> 'off JNIEnv" where
  "call_writev P env fd vectors n =
     (fst (writev P fd vectors n),
      env\<lparr>errno := snd (writev P fd vectors n),
          syscalls := syscalls env @ [Writev fd vectors n]\<rparr>)"

definition call_sendfile ::
  "'off platform \<Rightarrow> 'off JNIEnv \<Rightarrow> cint \<Rightarrow> cint \<Rightarrow> 'off \<Rightarrow> size_t \<Rightarrow> ssize_t \<times> 'off JNIEnv" where
  "call_sendfile P env out_fd in_fd off n =
     (fst (sendfile P out_fd in_fd off n),
      env\<lparr>errno := snd (sendfile P out_fd in_fd off n),
          syscalls := syscalls env @ [Sendfile out_fd in_fd off n]\<rparr>)"

section \<open>The sendfile adapter for platforms without \<open>sys/sendfile.h\<close>\<close>

text \<open>
  The BSD call takes the descriptors in the other order, takes the offset by value and
  returns the number of bytes sent through \<open>len\<close>. It answers with its \<open>int\<close> result, the
  updated \<open>len\<close> and \<open>errno\<close>.
\<close>

definition sendfile_adapter ::
  "(cint \<Rightarrow> cint \<Rightarrow> 'o word \<Rightarrow> 'o word \<Rightarrow> cint \<times> 'o word \<times> cint) \<Rightarrow>
   cint \<Rightarrow> cint \<Rightarrow> 'o::len word \<Rightarrow> size_t \<Rightarrow> ssize_t \<times> cint" where
  "sendfile_adapter bsd_sendfile out_fd in_fd offset count =
     (let len = ucast count;
          (result, len', e) = bsd_sendfile in_fd out_fd offset len
      in if sint result < 0 then (- 1, e) else (scast len', e))"

section \<open>The vector builder\<close>

text \<open>
  Indexing a pinned array is raw pointer arithmetic: an index past the end of the Java
  array reads memory the function does not own, which is undefined behaviour. The model
  stops there with a fault.
\<close>

datatype fault = OutOfBoundsRead

text \<open>
  The loop of \<open>initIoVec\<close>: \<open>i\<close> runs from 0 while \<open>i < size\<close> (a signed comparison);
  \<open>vectors\<close> holds the entries \<open>0 .. i - 1\<close> written so far. The sum of base and offset
  is an addition of two \<open>jint\<close>, so it is taken in 32 bits before the cast.
\<close>

function initIoVec_loop ::
  "jint list \<Rightarrow> jint list \<Rightarrow> jint list \<Rightarrow> jint \<Rightarrow> int \<Rightarrow> iovec list \<Rightarrow> fault + iovec list" where
  "initIoVec_loop buffers offsets lengths size' i vectors =
     (if i < sint size' then
        (if nat i < length buffers \<and> nat i < length offsets \<and> nat i < length lengths
         then initIoVec_loop buffers offsets lengths size' (i + 1)
                (vectors @ [\<lparr>iov_base = pointer_of_jint (buffers ! nat i + offsets ! nat i),
                             iov_len = size_t_of_jint (lengths ! nat i)\<rparr>])
         else Inl OutOfBoundsRead)
      else Inr vectors)"
  by pat_completeness auto
termination
  by (relation "measure (\<lambda>(buffers, offsets, lengths, size', i, vectors). nat (sint size' - i))") auto

declare initIoVec_loop.simps [simp del]

definition initIoVec ::
  "'off platform \<Rightarrow> 'off JNIEnv \<Rightarrow> jintArray \<Rightarrow> jintArray \<Rightarrow> jintArray \<Rightarrow> jint \<Rightarrow>
   fault + (iovec list option \<times> 'off JNIEnv)" where
  "initIoVec P env jBuffers jOffsets jLengths size' =
     (if \<not> new_iovec P size' then Inr (None, jniThrowOutOfMemoryError env)
      else case ScopedIntArrayRO P env jBuffers of
        (None, env1) \<Rightarrow> Inr (None, env1)
      | (Some buffers, env1) \<Rightarrow>
        (case ScopedIntArrayRO P env1 jOffsets of
           (None, env2) \<Rightarrow> Inr (None, env2)
         | (Some offsets, env2) \<Rightarrow>
           (case ScopedIntArrayRO P env2 jLengths of
              (None, env3) \<Rightarrow> Inr (None, env3)
            | (Some lengths, env3) \<Rightarrow>
              (case initIoVec_loop buffers offsets lengths size' 0 [] of
                 Inl f \<Rightarrow> Inl f
               | Inr vectors \<Rightarrow> Inr (Some vectors, env3)))))"

section \<open>The entry points\<close>

definition OSFileSystem_readv ::
  "'off platform \<Rightarrow> 'off JNIEnv \<Rightarrow> jint \<Rightarrow> jintArray \<Rightarrow> jintArray \<Rightarrow> jintArray \<Rightarrow> jint \<Rightarrow>
   fault + (jlong \<times> 'off JNIEnv)" where
  "OSFileSystem_readv P env fd jBuffers jOffsets jLengths size' =
     (case initIoVec P env jBuffers jOffsets jLengths size' of
        Inl f \<Rightarrow> Inl f
      | Inr (None, env1) \<Rightarrow> Inr (- 1, env1)
      | Inr (Some vectors, env1) \<Rightarrow>
         (case call_readv P env1 fd vectors size' of
            (result, env2) \<Rightarrow>
              if result = 0 then Inr (- 1, env2)
              else if result = - 1
                then Inr (jlong_of_long result, jniThrowIOException env2 (errno env2))
                else Inr (jlong_of_long result, env2)))"

definition OSFileSystem_writev ::
  "'off platform \<Rightarrow> 'off JNIEnv \<Rightarrow> jint \<Rightarrow> jintArray \<Rightarrow> jintArray \<Rightarrow> jintArray \<Rightarrow> jint \<Rightarrow>
   fault + (jlong \<times> 'off JNIEnv)" where
  "OSFileSystem_writev P env fd jBuffers jOffsets jLengths size' =
     (case initIoVec P env jBuffers jOffsets jLengths size' of
        Inl f \<Rightarrow> Inl f
      | Inr (None, env1) \<Rightarrow> Inr (- 1, env1)
      | Inr (Some vectors, env1) \<Rightarrow>
         (case call_writev P env1 fd vectors size' of
            (result, env2) \<Rightarrow>
              if result = - 1
                then Inr (jlong_of_long result, jniThrowIOException env2 (errno env2))
                else Inr (jlong_of_long result, env2)))"

definition OSFileSystem_transfer ::
  "('o::len word) platform \<Rightarrow> 'o word JNIEnv \<Rightarrow> jint \<Rightarrow> jobject \<Rightarrow> jlong \<Rightarrow> jlong \<Rightarrow>
   jlong \<times> 'o word JNIEnv" where
  "OSFileSystem_transfer P env fd sd offset count =
     (let socket = jniGetFDFromFileDescriptor P sd in
      if socket = - 1 then (- 1, env)
      else
        (let off = off_t_of_jlong offset in
         case call_sendfile P env socket fd off (size_t_of_jlong count) of
           (rc, env1) \<Rightarrow>
             if rc = - 1
               then (jlong_of_ssize_t rc, jniThrowIOException env1 (errno env1))
               else (jlong_of_ssize_t rc, env1)))"

text \<open>The number of bytes a vector list asks for.\<close>

definition requested :: "iovec list \<Rightarrow> nat" where
  "requested vectors = sum_list (map (\<lambda>v. unat (iov_len v)) vectors)"

text \<open>Entry \<open>k\<close> of the vector list, as the loop body writes it.\<close>

definition vector_at :: "jint list \<Rightarrow> jint list \<Rightarrow> jint list \<Rightarrow> nat \<Rightarrow> iovec" where
  "vector_at buffers offsets lengths k =
     \<lparr>iov_base = pointer_of_jint (buffers ! k + offsets ! k),
      iov_len = size_t_of_jint (lengths ! k)\<rparr>"

section \<open>A concrete platform for the instances\<close>

text \<open>An environment with no exception pending and no system call made.\<close>

definition quiet :: "'off JNIEnv" where
  "quiet = \<lparr>exception = None, errno = 0, syscalls = []\<rparr>"

text \<open>
  Allocation succeeds. The arrays 11, 12 and 13 hold the addresses, offsets and lengths of
  two buffers of 3 and 5 bytes; no other array can be accessed. The object 21 resolves to
  descriptor 7, no other object resolves. Every system call gives the same \<open>answer\<close>.
\<close>

definition demo_platform :: "ssize_t \<times> cint \<Rightarrow> 'off platform" where
  "demo_platform answer =
     \<lparr>new_iovec = (\<lambda>n. True),
      GetIntArrayElements = (\<lambda>a. if a = 11 then Inr [4096, 8192] else if a = 12 then Inr [0, 0]
         else if a = 13 then Inr [3, 5] else Inl NullPointerException),
      jniGetFDFromFileDescriptor = (\<lambda>sd. if sd = 21 then 7 else - 1),
      readv = (\<lambda>fd vectors n. answer),
      writev = (\<lambda>fd vectors n. answer),
      sendfile = (\<lambda>out_fd in_fd off n. answer)\<rparr>"

section \<open>Conversions between the integer types\<close>

lemma sint_jlong_of_long: "sint (jlong_of_long x) = sint x"
  by (simp add: jlong_of_long_def sint_up_scast is_up)

lemma jlong_of_long_eq_0: "jlong_of_long x = 0 \<longleftrightarrow> x = 0"
proof
  assume "jlong_of_long x = 0"
  then have "sint (jlong_of_long x) = 0" by simp
  then have "sint x = 0" by (simp add: sint_jlong_of_long)
  then show "x = 0" by (simp add: signed_eq_0_iff)
qed (simp add: jlong_of_long_def)

lemma jlong_of_long_minus_1: "jlong_of_long (- 1) = - 1"
  by (simp add: jlong_of_long_def)

text \<open>
  \<open>readv\<close>, \<open>writev\<close> and \<open>sendfile\<close> return the number of bytes transferred, or -1 with
  \<open>errno\<close> set: the only negative result of a call that keeps to this is -1.
\<close>

lemma negative_posix_result: "sint (r :: ssize_t) < 0 \<Longrightarrow> - 1 \<le> sint r \<Longrightarrow> r = - 1"
proof -
  assume "sint r < 0" "- 1 \<le> sint r"
  then have "sint r = sint (- 1 :: ssize_t)" by simp
  then show ?thesis by (rule signed_word_eqI)
qed

lemma nonnegative_result: "0 \<le> sint (r :: ssize_t) \<Longrightarrow> r \<noteq> - 1"
  by auto

text \<open>
  The offset of \<open>transfer\<close> survives the conversion to \<open>off_t\<close> when it fits in 32 bits and
  \<open>off_t\<close> has at least 32. A 32-bit \<open>off_t\<close> does not hold an offset beyond that range.
\<close>

lemma sint_off_t_of_jlong:
  assumes "32 \<le> LENGTH('o::len)" and "- (2 ^ 31) \<le> sint offset" and "sint offset < 2 ^ 31"
  shows "sint (off_t_of_jlong offset :: 'o word) = sint offset"
proof -
  have le: "(2::int) ^ 31 \<le> 2 ^ (LENGTH('o) - Suc 0)"
    using assms(1) by (intro power_increasing) simp_all
  have "signed_take_bit (LENGTH('o) - Suc 0) (sint offset) = sint offset"
    using assms(2,3) le by (intro signed_take_bit_int_eq_self) linarith+
  then show ?thesis
    by (simp add: off_t_of_jlong_def signed_scast_eq)
qed

lemma off_t_of_jlong_truncates:
  "sint (off_t_of_jlong 2147483648 :: 32 word) = - 2147483648"
  by (simp add: off_t_of_jlong_def)

section \<open>The loop of the vector builder\<close>

lemma initIoVec_loop_exit:
  "\<not> i < sint size' \<Longrightarrow> initIoVec_loop buffers offsets lengths size' i vectors = Inr vectors"
  by (subst initIoVec_loop.simps) simp

lemma initIoVec_loop_step:
  "i < sint size' \<Longrightarrow> nat i < length buffers \<Longrightarrow> nat i < length offsets \<Longrightarrow>
   nat i < length lengths \<Longrightarrow>
   initIoVec_loop buffers offsets lengths size' i vectors =
     initIoVec_loop buffers offsets lengths size' (i + 1)
       (vectors @ [vector_at buffers offsets lengths (nat i)])"
  by (subst initIoVec_loop.simps) (simp add: vector_at_def)

lemma initIoVec_loop_fault:
  "i < sint size' \<Longrightarrow>
   \<not> (nat i < length buffers \<and> nat i < length offsets \<and> nat i < length lengths) \<Longrightarrow>
   initIoVec_loop buffers offsets lengths size' i vectors = Inl OutOfBoundsRead"
  by (subst initIoVec_loop.simps) (simp only: if_True if_False)

lemma upt_nat_step:
  "i < k \<Longrightarrow> 0 \<le> i \<Longrightarrow> [nat i..<nat k] = nat i # [nat (i + 1)..<nat k]"
  by (simp add: upt_conv_Cons nat_add_distrib)

text \<open>With arrays of at least \<open>size\<close> elements the loop runs to the end.\<close>

lemma initIoVec_loop_filled:
  assumes "0 \<le> i"
    and "nat (sint size') \<le> length buffers"
    and "nat (sint size') \<le> length offsets"
    and "nat (sint size') \<le> length lengths"
  shows "initIoVec_loop buffers offsets lengths size' i vectors =
           Inr (vectors @ map (vector_at buffers offsets lengths) [nat i..<nat (sint size')])"
  using assms
proof (induction buffers offsets lengths size' i vectors rule: initIoVec_loop.induct)
  case (1 buffers offsets lengths size' i vectors)
  show ?case
  proof (cases "i < sint size'")
    case False
    then show ?thesis by (simp add: initIoVec_loop_exit)
  next
    case True
    have i0: "0 \<le> i" by (rule "1.prems"(1))
    have b: "nat i < length buffers" using True i0 "1.prems"(2) by linarith
    have o: "nat i < length offsets" using True i0 "1.prems"(3) by linarith
    have l: "nat i < length lengths" using True i0 "1.prems"(4) by linarith
    have i1: "0 \<le> i + 1" using i0 by simp
    have "initIoVec_loop buffers offsets lengths size' i vectors =
            initIoVec_loop buffers offsets lengths size' (i + 1)
              (vectors @ [vector_at buffers offsets lengths (nat i)])"
      by (rule initIoVec_loop_step [OF True b o l])
    also have "\<dots> = Inr ((vectors @ [vector_at buffers offsets lengths (nat i)]) @
                 map (vector_at buffers offsets lengths) [nat (i + 1)..<nat (sint size')])"
      unfolding vector_at_def
      by (rule "1.IH" [OF True _ i1 "1.prems"(2) "1.prems"(3) "1.prems"(4),
            folded vector_at_def, unfolded vector_at_def])
         (simp add: b o l)
    finally show ?thesis by (simp add: upt_nat_step [OF True i0])
  qed
qed

text \<open>An array shorter than \<open>size\<close> makes the loop read past its end.\<close>

lemma initIoVec_loop_short:
  assumes "0 \<le> i" and "i < sint size'"
    and "length buffers < nat (sint size') \<or> length offsets < nat (sint size') \<or>
         length lengths < nat (sint size')"
  shows "initIoVec_loop buffers offsets lengths size' i vectors = Inl OutOfBoundsRead"
  using assms
proof (induction buffers offsets lengths size' i vectors rule: initIoVec_loop.induct)
  case (1 buffers offsets lengths size' i vectors)
  show ?case
  proof (cases "nat i < length buffers \<and> nat i < length offsets \<and> nat i < length lengths")
    case False
    with "1.prems"(2) show ?thesis by (simp add: initIoVec_loop_fault)
  next
    case True
    then have b: "nat i < length buffers" and o: "nat i < length offsets"
      and l: "nat i < length lengths" by simp_all
    have i0: "0 \<le> i" by (rule "1.prems"(1))
    have i1: "0 \<le> i + 1" using i0 by simp
    have more: "i + 1 < sint size'"
      using "1.prems"(3) b o l i0 by linarith
    have "initIoVec_loop buffers offsets lengths size' i vectors =
            initIoVec_loop buffers offsets lengths size' (i + 1)
              (vectors @ [vector_at buffers offsets lengths (nat i)])"
      by (rule initIoVec_loop_step [OF "1.prems"(2) b o l])
    also have "\<dots> = Inl OutOfBoundsRead"
      unfolding vector_at_def
      by (rule "1.IH" [OF "1.prems"(2) _ i1 more "1.prems"(3)]) (simp add: b o l)
    finally show ?thesis .
  qed
qed

section \<open>The vector builder\<close>

lemma initIoVec_builds:
  assumes "new_iovec P size'"
    and "GetIntArrayElements P jBuffers = Inr buffers"
    and "GetIntArrayElements P jOffsets = Inr offsets"
    and "GetIntArrayElements P jLengths = Inr lengths"
    and "nat (sint size') \<le> length buffers"
    and "nat (sint size') \<le> length offsets"
    and "nat (sint size') \<le> length lengths"
  shows "initIoVec P env jBuffers jOffsets jLengths size' =
           Inr (Some (map (vector_at buffers offsets lengths) [0..<nat (sint size')]), env)"
  using assms by (simp add: initIoVec_def ScopedIntArrayRO_def initIoVec_loop_filled)

lemma initIoVec_failure:
  "\<not> new_iovec P size' \<Longrightarrow>
     initIoVec P env jBuffers jOffsets jLengths size' =
       Inr (None, env\<lparr>exception := Some OutOfMemoryError\<rparr>)"
  "new_iovec P size' \<Longrightarrow> GetIntArrayElements P jBuffers = Inl t \<Longrightarrow>
     initIoVec P env jBuffers jOffsets jLengths size' = Inr (None, env\<lparr>exception := Some t\<rparr>)"
  "new_iovec P size' \<Longrightarrow> GetIntArrayElements P jBuffers = Inr buffers \<Longrightarrow>
   GetIntArrayElements P jOffsets = Inl t \<Longrightarrow>
     initIoVec P env jBuffers jOffsets jLengths size' = Inr (None, env\<lparr>exception := Some t\<rparr>)"
  "new_iovec P size' \<Longrightarrow> GetIntArrayElements P jBuffers = Inr buffers \<Longrightarrow>
   GetIntArrayElements P jOffsets = Inr offsets \<Longrightarrow> GetIntArrayElements P jLengths = Inl t \<Longrightarrow>
     initIoVec P env jBuffers jOffsets jLengths size' = Inr (None, env\<lparr>exception := Some t\<rparr>)"
  by (simp_all add: initIoVec_def ScopedIntArrayRO_def jniThrowOutOfMemoryError_def)

text \<open>A vector list is only returned with the environment untouched.\<close>

lemma initIoVec_Some_env:
  assumes "initIoVec P env jBuffers jOffsets jLengths size' = Inr (Some vectors, env1)"
  shows "env1 = env"
  using assms
  by (auto simp: initIoVec_def ScopedIntArrayRO_def jniThrowOutOfMemoryError_def
      split: if_splits sum.splits option.splits prod.splits)

lemma demo_build:
  "initIoVec (demo_platform answer) env 11 12 13 2 =
     Inr (Some [\<lparr>iov_base = 4096, iov_len = 3\<rparr>, \<lparr>iov_base = 8192, iov_len = 5\<rparr>], env)"
proof -
  have "initIoVec (demo_platform answer) env 11 12 13 2 =
      Inr (Some (map (vector_at [4096, 8192] [0, 0] [3, 5]) [0..<nat (sint (2 :: jint))]), env)"
    by (rule initIoVec_builds) (simp_all add: demo_platform_def)
  moreover have "[0..<nat (sint (2 :: jint))] = [0, 1]"
    by (simp add: upt_rec)
  ultimately show ?thesis
    by (simp add: vector_at_def pointer_of_jint_def size_t_of_jint_def)
qed

lemma demo_build_empty:
  "initIoVec (demo_platform answer) env 11 12 13 0 = Inr (Some [], env)"
proof -
  have "initIoVec (demo_platform answer) env 11 12 13 0 =
      Inr (Some (map (vector_at [4096, 8192] [0, 0] [3, 5]) [0..<nat (sint (0 :: jint))]), env)"
    by (rule initIoVec_builds) (simp_all add: demo_platform_def)
  then show ?thesis by simp
qed

section \<open>The entry points once the vector list is built\<close>

lemma no_vectors_no_call:
  assumes "initIoVec P env jBuffers jOffsets jLengths size' = Inr (None, env1)"
  shows "OSFileSystem_readv P env fd jBuffers jOffsets jLengths size' = Inr (- 1, env1)"
    and "OSFileSystem_writev P env fd jBuffers jOffsets jLengths size' = Inr (- 1, env1)"
  using assms by (simp_all add: OSFileSystem_readv_def OSFileSystem_writev_def)

lemma readv_after_build:
  assumes "initIoVec P env jBuffers jOffsets jLengths size' = Inr (Some vectors, env1)"
    and "readv P fd vectors size' = (r, e)"
  shows "OSFileSystem_readv P env fd jBuffers jOffsets jLengths size' =
     (if r = 0
        then Inr (- 1, env1\<lparr>errno := e, syscalls := syscalls env1 @ [Readv fd vectors size']\<rparr>)
      else if r = - 1
        then Inr (- 1, env1\<lparr>errno := e, syscalls := syscalls env1 @ [Readv fd vectors size'],
                            exception := Some (IOException e)\<rparr>)
      else Inr (jlong_of_long r,
                env1\<lparr>errno := e, syscalls := syscalls env1 @ [Readv fd vectors size']\<rparr>))"
  using assms
  by (simp add: OSFileSystem_readv_def call_readv_def jniThrowIOException_def
      jlong_of_long_minus_1)

lemma writev_after_build:
  assumes "initIoVec P env jBuffers jOffsets jLengths size' = Inr (Some vectors, env1)"
    and "writev P fd vectors size' = (r, e)"
  shows "OSFileSystem_writev P env fd jBuffers jOffsets jLengths size' =
     (if r = - 1
        then Inr (- 1, env1\<lparr>errno := e, syscalls := syscalls env1 @ [Writev fd vectors size'],
                            exception := Some (IOException e)\<rparr>)
      else Inr (jlong_of_long r,
                env1\<lparr>errno := e, syscalls := syscalls env1 @ [Writev fd vectors size']\<rparr>))"
  using assms
  by (simp add: OSFileSystem_writev_def call_writev_def jniThrowIOException_def
      jlong_of_long_minus_1)

lemma transfer_after_resolve:
  assumes "jniGetFDFromFileDescriptor P sd = socket" and "socket \<noteq> - 1"
    and "sendfile P socket fd (off_t_of_jlong offset) (size_t_of_jlong count) = (r, e)"
  shows "OSFileSystem_transfer P env fd sd offset count =
     (if r = - 1
        then (- 1, env\<lparr>errno := e,
                        syscalls := syscalls env @
                          [Sendfile socket fd (off_t_of_jlong offset) (size_t_of_jlong count)],
                        exception := Some (IOException e)\<rparr>)
      else (jlong_of_ssize_t r,
            env\<lparr>errno := e,
                 syscalls := syscalls env @
                   [Sendfile socket fd (off_t_of_jlong offset) (size_t_of_jlong count)]\<rparr>))"
  using assms
  by (simp add: OSFileSystem_transfer_def call_sendfile_def jniThrowIOException_def
      jlong_of_ssize_t_def Let_def)

lemma readv_failure:
  assumes "initIoVec P env jBuffers jOffsets jLengths size' = Inr (Some vectors, env1)"
    and "readv P fd vectors size' = (r, e)" and "sint r < 0" and "- 1 \<le> sint r"
  shows "OSFileSystem_readv P env fd jBuffers jOffsets jLengths size' =
           Inr (- 1, env1\<lparr>errno := e, syscalls := syscalls env1 @ [Readv fd vectors size'],
                           exception := Some (IOException e)\<rparr>)"
proof -
  have "r = - 1" using assms(3,4) by (rule negative_posix_result)
  then show ?thesis using assms(1,2) by (simp add: readv_after_build)
qed

lemma readv_success:
  assumes "initIoVec P env jBuffers jOffsets jLengths size' = Inr (Some vectors, env1)"
    and "readv P fd vectors size' = (r, e)" and "0 \<le> sint r"
  shows "\<exists>v. OSFileSystem_readv P env fd jBuffers jOffsets jLengths size' =
           Inr (v, env1\<lparr>errno := e, syscalls := syscalls env1 @ [Readv fd vectors size']\<rparr>)"
proof -
  have "r \<noteq> - 1" using assms(3) by (rule nonnegative_result)
  then show ?thesis using assms(1,2) by (simp add: readv_after_build)
qed

lemma writev_failure:
  assumes "initIoVec P env jBuffers jOffsets jLengths size' = Inr (Some vectors, env1)"
    and "writev P fd vectors size' = (r, e)" and "sint r < 0" and "- 1 \<le> sint r"
  shows "OSFileSystem_writev P env fd jBuffers jOffsets jLengths size' =
           Inr (- 1, env1\<lparr>errno := e, syscalls := syscalls env1 @ [Writev fd vectors size'],
                           exception := Some (IOException e)\<rparr>)"
proof -
  have "r = - 1" using assms(3,4) by (rule negative_posix_result)
  then show ?thesis using assms(1,2) by (simp add: writev_after_build)
qed

lemma writev_success:
  assumes "initIoVec P env jBuffers jOffsets jLengths size' = Inr (Some vectors, env1)"
    and "writev P fd vectors size' = (r, e)" and "0 \<le> sint r"
  shows "OSFileSystem_writev P env fd jBuffers jOffsets jLengths size' =
           Inr (jlong_of_long r,
                env1\<lparr>errno := e, syscalls := syscalls env1 @ [Writev fd vectors size']\<rparr>)"
proof -
  have "r \<noteq> - 1" using assms(3) by (rule nonnegative_result)
  then show ?thesis using assms(1,2) by (simp add: writev_after_build)
qed

lemma transfer_failure:
  assumes "jniGetFDFromFileDescriptor P sd = socket" and "socket \<noteq> - 1"
    and "sendfile P socket fd (off_t_of_jlong offset) (size_t_of_jlong count) = (r, e)"
    and "sint r < 0" and "- 1 \<le> sint r"
  shows "OSFileSystem_transfer P env fd sd offset count =
           (- 1, env\<lparr>errno := e,
                      syscalls := syscalls env @
                        [Sendfile socket fd (off_t_of_jlong offset) (size_t_of_jlong count)],
                      exception := Some (IOException e)\<rparr>)"
proof -
  have "r = - 1" using assms(4,5) by (rule negative_posix_result)
  then show ?thesis using assms(1,2,3) by (simp add: transfer_after_resolve)
qed

lemma transfer_success:
  assumes "jniGetFDFromFileDescriptor P sd = socket" and "socket \<noteq> - 1"
    and "sendfile P socket fd (off_t_of_jlong offset) (size_t_of_jlong count) = (r, e)"
    and "0 \<le> sint r"
  shows "OSFileSystem_transfer P env fd sd offset count =
           (jlong_of_ssize_t r,
            env\<lparr>errno := e,
                 syscalls := syscalls env @
                   [Sendfile socket fd (off_t_of_jlong offset) (size_t_of_jlong count)]\<rparr>)"
proof -
  have "r \<noteq> - 1" using assms(4) by (rule nonnegative_result)
  then show ?thesis using assms(1,2,3) by (simp add: transfer_after_resolve)
qed

text \<open>
  The adapter turns every negative result of the BSD call into -1, so \<open>transfer\<close> over
  the adapter raises on each of them.
\<close>

lemma sendfile_adapter_failure:
  assumes "bsd_sendfile in_fd out_fd offset (ucast count) = (result, len', e)"
    and "sint result < 0"
  shows "sendfile_adapter bsd_sendfile out_fd in_fd offset count = (- 1, e)"
  using assms by (simp add: sendfile_adapter_def)

lemma transfer_over_adapter_failure:
  assumes "sendfile P = sendfile_adapter bsd_sendfile"
    and "jniGetFDFromFileDescriptor P sd = socket" and "socket \<noteq> - 1"
    and "bsd_sendfile fd socket (off_t_of_jlong offset) (ucast (size_t_of_jlong count)) =
           (result, len', e)"
    and "sint result < 0"
  shows "OSFileSystem_transfer P env fd sd offset count =
           (- 1, env\<lparr>errno := e,
                      syscalls := syscalls env @
                        [Sendfile socket fd (off_t_of_jlong offset) (size_t_of_jlong count)],
                      exception := Some (IOException e)\<rparr>)"
proof -
  have "sendfile P socket fd (off_t_of_jlong offset) (size_t_of_jlong count) = (- 1, e)"
    using assms(1,4,5) by (simp add: sendfile_adapter_failure)
  from transfer_after_resolve [OF assms(2,3) this] show ?thesis by simp
qed

section \<open>End of stream on a vectored read\<close>

text \<open>
  C1: \<open>readv\<close> never returns 0; and when the vector list asks for at least one byte and
  the gather-read system call reports zero bytes, \<open>readv\<close> returns -1, raising nothing.
\<close>

theorem readv_end_of_stream:
  "(\<forall>env'. OSFileSystem_readv P env fd jBuffers jOffsets jLengths size' \<noteq> Inr (0, env')) \<and>
   (initIoVec P env jBuffers jOffsets jLengths size' = Inr (Some vectors, env1) \<and>
    requested vectors \<noteq> 0 \<and> readv P fd vectors size' = (0, e) \<longrightarrow>
      OSFileSystem_readv P env fd jBuffers jOffsets jLengths size' =
        Inr (- 1, env1\<lparr>errno := e, syscalls := syscalls env1 @ [Readv fd vectors size']\<rparr>))"
proof (intro conjI allI impI)
  fix env'
  show "OSFileSystem_readv P env fd jBuffers jOffsets jLengths size' \<noteq> Inr (0, env')"
  proof (cases "initIoVec P env jBuffers jOffsets jLengths size'")
    case (Inl f)
    then show ?thesis by (simp add: OSFileSystem_readv_def)
  next
    case (Inr built)
    obtain vs env2 where built: "built = (vs, env2)" by (cases built)
    show ?thesis
    proof (cases vs)
      case None
      with Inr built show ?thesis by (simp add: OSFileSystem_readv_def)
    next
      case (Some vectors)
      with Inr built
      have b: "initIoVec P env jBuffers jOffsets jLengths size' = Inr (Some vectors, env2)"
        by simp
      obtain r e where a: "readv P fd vectors size' = (r, e)"
        by (cases "readv P fd vectors size'")
      show ?thesis
        by (simp add: readv_after_build [OF b a] jlong_of_long_eq_0)
    qed
  qed
next
  assume "initIoVec P env jBuffers jOffsets jLengths size' = Inr (Some vectors, env1) \<and>
    requested vectors \<noteq> 0 \<and> readv P fd vectors size' = (0, e)"
  then show "OSFileSystem_readv P env fd jBuffers jOffsets jLengths size' =
        Inr (- 1, env1\<lparr>errno := e, syscalls := syscalls env1 @ [Readv fd vectors size']\<rparr>)"
    by (simp add: readv_after_build)
qed

theorem readv_end_of_stream_witness:
  "initIoVec (demo_platform (0, 0) :: 32 word platform) quiet 11 12 13 2 =
     Inr (Some [\<lparr>iov_base = 4096, iov_len = 3\<rparr>, \<lparr>iov_base = 8192, iov_len = 5\<rparr>], quiet) \<and>
   requested [\<lparr>iov_base = 4096, iov_len = 3\<rparr>, \<lparr>iov_base = 8192, iov_len = 5\<rparr>] = 8 \<and>
   readv (demo_platform (0, 0) :: 32 word platform) 9
     [\<lparr>iov_base = 4096, iov_len = 3\<rparr>, \<lparr>iov_base = 8192, iov_len = 5\<rparr>] 2 = (0, 0) \<and>
   OSFileSystem_readv (demo_platform (0, 0) :: 32 word platform) quiet 9 11 12 13 2 =
     Inr (- 1, \<lparr>exception = None, errno = 0,
               syscalls = [Readv 9 [\<lparr>iov_base = 4096, iov_len = 3\<rparr>,
                                    \<lparr>iov_base = 8192, iov_len = 5\<rparr>] 2]\<rparr>)"
proof -
  let ?P = "demo_platform (0, 0) :: 32 word platform"
  let ?vs = "[\<lparr>iov_base = 4096, iov_len = 3\<rparr>, \<lparr>iov_base = 8192, iov_len = (5 :: size_t)\<rparr>]"
  have b: "initIoVec ?P quiet 11 12 13 2 = Inr (Some ?vs, quiet)"
    by (rule demo_build)
  have r: "requested ?vs = 8" by (simp add: requested_def)
  have z: "readv ?P 9 ?vs 2 = (0, 0)"
    by (simp add: demo_platform_def)
  from b r z readv_end_of_stream [where P = ?P and env = quiet and fd = 9 and jBuffers = 11
      and jOffsets = 12 and jLengths = 13 and size' = 2 and vectors = ?vs and ?env1.0 = quiet
      and e = 0]
  have "OSFileSystem_readv ?P quiet 9 11 12 13 2 =
      Inr (- 1, quiet\<lparr>errno := 0, syscalls := syscalls quiet @ [Readv 9 ?vs 2]\<rparr>)"
    by simp
  then show ?thesis using b r z by (simp add: quiet_def)
qed

section \<open>Failures of the system calls\<close>

text \<open>
  C2: when the system call under \<open>readv\<close>, \<open>writev\<close> or \<open>transfer\<close> returns a negative
  result, the operation raises the I/O failure carrying the \<open>errno\<close> the call left, and
  returns -1; when the call returns a byte count, nothing is raised. A system call returns
  a byte count or -1, which is the second hypothesis on \<open>r\<close>; the source compares the result
  with -1.
\<close>

theorem syscall_failure_raises:
  fixes P :: "('o::len word) platform"
  shows
  "(sint r < 0 \<and> - 1 \<le> sint r \<longrightarrow>
      (initIoVec P env jBuffers jOffsets jLengths size' = Inr (Some vectors, env1) \<and>
       readv P fd vectors size' = (r, e) \<longrightarrow>
         OSFileSystem_readv P env fd jBuffers jOffsets jLengths size' =
           Inr (- 1, env1\<lparr>errno := e, syscalls := syscalls env1 @ [Readv fd vectors size'],
                           exception := Some (IOException e)\<rparr>)) \<and>
      (initIoVec P env jBuffers jOffsets jLengths size' = Inr (Some vectors, env1) \<and>
       writev P fd vectors size' = (r, e) \<longrightarrow>
         OSFileSystem_writev P env fd jBuffers jOffsets jLengths size' =
           Inr (- 1, env1\<lparr>errno := e, syscalls := syscalls env1 @ [Writev fd vectors size'],
                           exception := Some (IOException e)\<rparr>)) \<and>
      (jniGetFDFromFileDescriptor P sd = socket \<and> socket \<noteq> - 1 \<and>
       sendfile P socket fd (off_t_of_jlong offset) (size_t_of_jlong count) = (r, e) \<longrightarrow>
         OSFileSystem_transfer P env fd sd offset count =
           (- 1, env\<lparr>errno := e,
                      syscalls := syscalls env @
                        [Sendfile socket fd (off_t_of_jlong offset) (size_t_of_jlong count)],
                      exception := Some (IOException e)\<rparr>))) \<and>
   (0 \<le> sint r \<longrightarrow>
      (initIoVec P env jBuffers jOffsets jLengths size' = Inr (Some vectors, env1) \<and>
       readv P fd vectors size' = (r, e) \<longrightarrow>
         (\<exists>v. OSFileSystem_readv P env fd jBuffers jOffsets jLengths size' =
           Inr (v, env1\<lparr>errno := e, syscalls := syscalls env1 @ [Readv fd vectors size']\<rparr>))) \<and>
      (initIoVec P env jBuffers jOffsets jLengths size' = Inr (Some vectors, env1) \<and>
       writev P fd vectors size' = (r, e) \<longrightarrow>
         (\<exists>v. OSFileSystem_writev P env fd jBuffers jOffsets jLengths size' =
           Inr (v, env1\<lparr>errno := e, syscalls := syscalls env1 @ [Writev fd vectors size']\<rparr>))) \<and>
      (jniGetFDFromFileDescriptor P sd = socket \<and> socket \<noteq> - 1 \<and>
       sendfile P socket fd (off_t_of_jlong offset) (size_t_of_jlong count) = (r, e) \<longrightarrow>
         (\<exists>v. OSFileSystem_transfer P env fd sd offset count =
           (v, env\<lparr>errno := e,
                    syscalls := syscalls env @
                      [Sendfile socket fd (off_t_of_jlong offset) (size_t_of_jlong count)]\<rparr>))))"
proof (intro conjI impI; (elim conjE)?)
qed (simp_all add: readv_failure writev_failure transfer_failure readv_success writev_success
      transfer_success)

theorem syscall_failure_raises_witness:
  "sint (- 1 :: ssize_t) < 0 \<and> - 1 \<le> sint (- 1 :: ssize_t) \<and>
   OSFileSystem_readv (demo_platform (- 1, 5) :: 32 word platform) quiet 9 11 12 13 2 =
     Inr (- 1, \<lparr>exception = Some (IOException 5), errno = 5,
               syscalls = [Readv 9 [\<lparr>iov_base = 4096, iov_len = 3\<rparr>,
                                    \<lparr>iov_base = 8192, iov_len = 5\<rparr>] 2]\<rparr>) \<and>
   OSFileSystem_writev (demo_platform (- 1, 5) :: 32 word platform) quiet 9 11 12 13 2 =
     Inr (- 1, \<lparr>exception = Some (IOException 5), errno = 5,
               syscalls = [Writev 9 [\<lparr>iov_base = 4096, iov_len = 3\<rparr>,
                                     \<lparr>iov_base = 8192, iov_len = 5\<rparr>] 2]\<rparr>) \<and>
   OSFileSystem_transfer (demo_platform (- 1, 5) :: 32 word platform) quiet 9 21 0 100 =
     (- 1, \<lparr>exception = Some (IOException 5), errno = 5,
           syscalls = [Sendfile 7 9 0 100]\<rparr>) \<and>
   0 \<le> sint (8 :: ssize_t) \<and>
   (\<exists>v. OSFileSystem_readv (demo_platform (8, 0) :: 32 word platform) quiet 9 11 12 13 2 =
     Inr (v, \<lparr>exception = None, errno = 0,
             syscalls = [Readv 9 [\<lparr>iov_base = 4096, iov_len = 3\<rparr>,
                                  \<lparr>iov_base = 8192, iov_len = 5\<rparr>] 2]\<rparr>)) \<and>
   (\<exists>v. OSFileSystem_writev (demo_platform (8, 0) :: 32 word platform) quiet 9 11 12 13 2 =
     Inr (v, \<lparr>exception = None, errno = 0,
             syscalls = [Writev 9 [\<lparr>iov_base = 4096, iov_len = 3\<rparr>,
                                   \<lparr>iov_base = 8192, iov_len = 5\<rparr>] 2]\<rparr>)) \<and>
   (\<exists>v. OSFileSystem_transfer (demo_platform (8, 0) :: 32 word platform) quiet 9 21 0 100 =
     (v, \<lparr>exception = None, errno = 0, syscalls = [Sendfile 7 9 0 100]\<rparr>))"
proof -
  let ?F = "demo_platform (- 1, 5) :: 32 word platform"
  let ?G = "demo_platform (8, 0) :: 32 word platform"
  let ?vs = "[\<lparr>iov_base = 4096, iov_len = 3\<rparr>, \<lparr>iov_base = 8192, iov_len = (5 :: size_t)\<rparr>]"
  have neg: "sint (- 1 :: ssize_t) < 0" "- 1 \<le> sint (- 1 :: ssize_t)" by simp_all
  have pos: "0 \<le> sint (8 :: ssize_t)" by simp
  have bF: "initIoVec ?F quiet 11 12 13 2 = Inr (Some ?vs, quiet)" by (rule demo_build)
  have bG: "initIoVec ?G quiet 11 12 13 2 = Inr (Some ?vs, quiet)" by (rule demo_build)
  have cF: "readv ?F 9 ?vs 2 = (- 1, 5)" "writev ?F 9 ?vs 2 = (- 1, 5)"
    "jniGetFDFromFileDescriptor ?F 21 = 7" "(7 :: cint) \<noteq> - 1"
    "sendfile ?F 7 9 (off_t_of_jlong 0) (size_t_of_jlong 100) = (- 1, 5)"
    by (simp_all add: demo_platform_def)
  have cG: "readv ?G 9 ?vs 2 = (8, 0)" "writev ?G 9 ?vs 2 = (8, 0)"
    "jniGetFDFromFileDescriptor ?G 21 = 7"
    "sendfile ?G 7 9 (off_t_of_jlong 0) (size_t_of_jlong 100) = (8, 0)"
    by (simp_all add: demo_platform_def)
  have conv: "(off_t_of_jlong 0 :: 32 word) = 0" "size_t_of_jlong 100 = 100"
    by (simp_all add: off_t_of_jlong_def size_t_of_jlong_def)
  from neg bF cF
    syscall_failure_raises [where r = "- 1" and P = ?F and env = quiet and jBuffers = 11
      and jOffsets = 12 and jLengths = 13 and size' = 2 and vectors = ?vs and ?env1.0 = quiet
      and fd = 9 and e = 5 and sd = 21 and socket = 7 and offset = 0 and count = 100]
  have failing:
    "OSFileSystem_readv ?F quiet 9 11 12 13 2 =
       Inr (- 1, quiet\<lparr>errno := 5, syscalls := syscalls quiet @ [Readv 9 ?vs 2],
                        exception := Some (IOException 5)\<rparr>)"
    "OSFileSystem_writev ?F quiet 9 11 12 13 2 =
       Inr (- 1, quiet\<lparr>errno := 5, syscalls := syscalls quiet @ [Writev 9 ?vs 2],
                        exception := Some (IOException 5)\<rparr>)"
    "OSFileSystem_transfer ?F quiet 9 21 0 100 =
       (- 1, quiet\<lparr>errno := 5,
                    syscalls := syscalls quiet @
                      [Sendfile 7 9 (off_t_of_jlong 0) (size_t_of_jlong 100)],
                    exception := Some (IOException 5)\<rparr>)"
    by simp_all
  from pos bG cG cF(4)
    syscall_failure_raises [where r = 8 and P = ?G and env = quiet and jBuffers = 11
      and jOffsets = 12 and jLengths = 13 and size' = 2 and vectors = ?vs and ?env1.0 = quiet
      and fd = 9 and e = 0 and sd = 21 and socket = 7 and offset = 0 and count = 100]
  have passing:
    "\<exists>v. OSFileSystem_readv ?G quiet 9 11 12 13 2 =
       Inr (v, quiet\<lparr>errno := 0, syscalls := syscalls quiet @ [Readv 9 ?vs 2]\<rparr>)"
    "\<exists>v. OSFileSystem_writev ?G quiet 9 11 12 13 2 =
       Inr (v, quiet\<lparr>errno := 0, syscalls := syscalls quiet @ [Writev 9 ?vs 2]\<rparr>)"
    "\<exists>v. OSFileSystem_transfer ?G quiet 9 21 0 100 =
       (v, quiet\<lparr>errno := 0,
                  syscalls := syscalls quiet @
                    [Sendfile 7 9 (off_t_of_jlong 0) (size_t_of_jlong 100)]\<rparr>)"
    by simp_all
  from failing passing neg pos show ?thesis
    by (simp add: quiet_def conv)
qed

section \<open>An unresolved destination socket\<close>

text \<open>
  C3: when the destination socket object does not resolve to a descriptor, \<open>transfer\<close>
  returns -1 at once and leaves the environment as it was: no exception is raised and
  no system call is made.
\<close>

theorem transfer_unresolved_socket:
  "jniGetFDFromFileDescriptor P sd = - 1 \<Longrightarrow>
     OSFileSystem_transfer P env fd sd offset count = (- 1, env)"
  by (simp add: OSFileSystem_transfer_def)

theorem transfer_unresolved_socket_witness:
  "jniGetFDFromFileDescriptor (demo_platform (8, 0) :: 32 word platform) 0 = - 1 \<and>
   OSFileSystem_transfer (demo_platform (8, 0) :: 32 word platform) quiet 9 0 0 100 =
     (- 1, \<lparr>exception = None, errno = 0, syscalls = []\<rparr>)"
proof -
  have u: "jniGetFDFromFileDescriptor (demo_platform (8, 0) :: 32 word platform) 0 = - 1"
    by (simp add: demo_platform_def)
  from transfer_unresolved_socket [OF u, of quiet 9 0 100] u
  show ?thesis by (simp add: quiet_def)
qed

section \<open>The result of a vectored write\<close>

text \<open>
  C4: with \<open>count = 0\<close>, an allocation that succeeds, accessible arrays and a descriptor
  on which the empty write gives 0, \<open>writev\<close> returns 0 and raises nothing; and for any
  vector list, a non-negative result of the system call is returned with its value
  unchanged, zero included, and nothing is raised.
\<close>

theorem writev_count_unchanged:
  "(new_iovec P 0 \<and> GetIntArrayElements P jBuffers = Inr buffers \<and>
    GetIntArrayElements P jOffsets = Inr offsets \<and> GetIntArrayElements P jLengths = Inr lengths \<and>
    writev P fd [] 0 = (0, e) \<longrightarrow>
      OSFileSystem_writev P env fd jBuffers jOffsets jLengths 0 =
        Inr (0, env\<lparr>errno := e, syscalls := syscalls env @ [Writev fd [] 0]\<rparr>)) \<and>
   (initIoVec P env jBuffers jOffsets jLengths size' = Inr (Some vectors, env1) \<and>
    writev P fd vectors size' = (r, e) \<and> 0 \<le> sint r \<longrightarrow>
      (\<exists>v. OSFileSystem_writev P env fd jBuffers jOffsets jLengths size' =
             Inr (v, env1\<lparr>errno := e, syscalls := syscalls env1 @ [Writev fd vectors size']\<rparr>)
           \<and> sint v = sint r))"
proof (intro conjI impI; (elim conjE)?)
  assume a: "new_iovec P 0" "GetIntArrayElements P jBuffers = Inr buffers"
    "GetIntArrayElements P jOffsets = Inr offsets" "GetIntArrayElements P jLengths = Inr lengths"
    and w: "writev P fd [] 0 = (0, e)"
  have "initIoVec P env jBuffers jOffsets jLengths 0 =
      Inr (Some (map (vector_at buffers offsets lengths) [0..<nat (sint (0 :: jint))]), env)"
    using a by (intro initIoVec_builds) simp_all
  then have "initIoVec P env jBuffers jOffsets jLengths 0 = Inr (Some [], env)"
    by simp
  from writev_success [OF this w]
  show "OSFileSystem_writev P env fd jBuffers jOffsets jLengths 0 =
        Inr (0, env\<lparr>errno := e, syscalls := syscalls env @ [Writev fd [] 0]\<rparr>)"
    by (simp add: jlong_of_long_def)
next
  assume "initIoVec P env jBuffers jOffsets jLengths size' = Inr (Some vectors, env1)"
    and "writev P fd vectors size' = (r, e)" and "0 \<le> sint r"
  then show "\<exists>v. OSFileSystem_writev P env fd jBuffers jOffsets jLengths size' =
             Inr (v, env1\<lparr>errno := e, syscalls := syscalls env1 @ [Writev fd vectors size']\<rparr>)
           \<and> sint v = sint r"
    by (simp add: writev_success sint_jlong_of_long)
qed

theorem writev_count_unchanged_witness:
  "new_iovec (demo_platform (0, 0) :: 32 word platform) 0 \<and>
   GetIntArrayElements (demo_platform (0, 0) :: 32 word platform) 11 = Inr [4096, 8192] \<and>
   GetIntArrayElements (demo_platform (0, 0) :: 32 word platform) 12 = Inr [0, 0] \<and>
   GetIntArrayElements (demo_platform (0, 0) :: 32 word platform) 13 = Inr [3, 5] \<and>
   writev (demo_platform (0, 0) :: 32 word platform) 9 [] 0 = (0, 0) \<and>
   OSFileSystem_writev (demo_platform (0, 0) :: 32 word platform) quiet 9 11 12 13 0 =
     Inr (0, \<lparr>exception = None, errno = 0, syscalls = [Writev 9 [] 0]\<rparr>) \<and>
   0 \<le> sint (8 :: ssize_t) \<and>
   (\<exists>v. OSFileSystem_writev (demo_platform (8, 0) :: 32 word platform) quiet 9 11 12 13 2 =
      Inr (v, \<lparr>exception = None, errno = 0,
              syscalls = [Writev 9 [\<lparr>iov_base = 4096, iov_len = 3\<rparr>,
                                    \<lparr>iov_base = 8192, iov_len = 5\<rparr>] 2]\<rparr>)
    \<and> sint v = 8)"
proof -
  let ?Z = "demo_platform (0, 0) :: 32 word platform"
  let ?G = "demo_platform (8, 0) :: 32 word platform"
  let ?vs = "[\<lparr>iov_base = 4096, iov_len = 3\<rparr>, \<lparr>iov_base = 8192, iov_len = (5 :: size_t)\<rparr>]"
  have h: "new_iovec ?Z 0" "GetIntArrayElements ?Z 11 = Inr [4096, 8192]"
    "GetIntArrayElements ?Z 12 = Inr [0, 0]" "GetIntArrayElements ?Z 13 = Inr [3, 5]"
    "writev ?Z 9 [] 0 = (0, 0)"
    by (simp_all add: demo_platform_def)
  have g: "initIoVec ?G quiet 11 12 13 2 = Inr (Some ?vs, quiet)" by (rule demo_build)
  have w: "writev ?G 9 ?vs 2 = (8, 0)" by (simp add: demo_platform_def)
  have pos: "0 \<le> sint (8 :: ssize_t)" by simp
  from h writev_count_unchanged [where P = ?Z and jBuffers = 11 and jOffsets = 12
      and jLengths = 13 and buffers = "[4096, 8192]" and offsets = "[0, 0]"
      and lengths = "[3, 5]" and fd = 9 and e = 0 and env = quiet]
  have empty: "OSFileSystem_writev ?Z quiet 9 11 12 13 0 =
      Inr (0, quiet\<lparr>errno := 0, syscalls := syscalls quiet @ [Writev 9 [] 0]\<rparr>)"
    by simp
  from g w pos writev_count_unchanged [where P = ?G and jBuffers = 11 and jOffsets = 12
      and jLengths = 13 and size' = 2 and vectors = ?vs and ?env1.0 = quiet and fd = 9
      and e = 0 and r = 8 and env = quiet]
  have some: "\<exists>v. OSFileSystem_writev ?G quiet 9 11 12 13 2 =
      Inr (v, quiet\<lparr>errno := 0, syscalls := syscalls quiet @ [Writev 9 ?vs 2]\<rparr>)
    \<and> sint v = sint (8 :: ssize_t)"
    by simp
  from h empty some pos show ?thesis by (simp add: quiet_def)
qed

section \<open>Failures of the vector builder\<close>

text \<open>
  C6: when the allocation of the vector list fails, \<open>readv\<close> and \<open>writev\<close> return -1 with
  the out-of-memory error raised; when the first of the three arrays that cannot be
  accessed fails with \<open>t\<close>, they return -1 with \<open>t\<close> pending as the access step raised
  it. In both cases the list of system calls made is the one before the call: the read
  or write is not attempted.
\<close>

theorem vector_build_failure:
  "(\<not> new_iovec P size' \<longrightarrow>
      OSFileSystem_readv P env fd jBuffers jOffsets jLengths size' =
        Inr (- 1, env\<lparr>exception := Some OutOfMemoryError\<rparr>) \<and>
      OSFileSystem_writev P env fd jBuffers jOffsets jLengths size' =
        Inr (- 1, env\<lparr>exception := Some OutOfMemoryError\<rparr>)) \<and>
   (new_iovec P size' \<and>
    (GetIntArrayElements P jBuffers = Inl t \<or>
     GetIntArrayElements P jBuffers = Inr buffers \<and> GetIntArrayElements P jOffsets = Inl t \<or>
     GetIntArrayElements P jBuffers = Inr buffers \<and> GetIntArrayElements P jOffsets = Inr offsets \<and>
       GetIntArrayElements P jLengths = Inl t) \<longrightarrow>
      OSFileSystem_readv P env fd jBuffers jOffsets jLengths size' =
        Inr (- 1, env\<lparr>exception := Some t\<rparr>) \<and>
      OSFileSystem_writev P env fd jBuffers jOffsets jLengths size' =
        Inr (- 1, env\<lparr>exception := Some t\<rparr>))"
proof (intro conjI impI)
  assume "\<not> new_iovec P size'"
  then have "initIoVec P env jBuffers jOffsets jLengths size' =
      Inr (None, env\<lparr>exception := Some OutOfMemoryError\<rparr>)"
    by (rule initIoVec_failure)
  then show "OSFileSystem_readv P env fd jBuffers jOffsets jLengths size' =
        Inr (- 1, env\<lparr>exception := Some OutOfMemoryError\<rparr>)"
    and "OSFileSystem_writev P env fd jBuffers jOffsets jLengths size' =
        Inr (- 1, env\<lparr>exception := Some OutOfMemoryError\<rparr>)"
    by (rule no_vectors_no_call)+
next
  assume "new_iovec P size' \<and>
    (GetIntArrayElements P jBuffers = Inl t \<or>
     GetIntArrayElements P jBuffers = Inr buffers \<and> GetIntArrayElements P jOffsets = Inl t \<or>
     GetIntArrayElements P jBuffers = Inr buffers \<and> GetIntArrayElements P jOffsets = Inr offsets \<and>
       GetIntArrayElements P jLengths = Inl t)"
  then have "initIoVec P env jBuffers jOffsets jLengths size' =
      Inr (None, env\<lparr>exception := Some t\<rparr>)"
    by (auto simp: initIoVec_failure)
  then show "OSFileSystem_readv P env fd jBuffers jOffsets jLengths size' =
        Inr (- 1, env\<lparr>exception := Some t\<rparr>)"
    and "OSFileSystem_writev P env fd jBuffers jOffsets jLengths size' =
        Inr (- 1, env\<lparr>exception := Some t\<rparr>)"
    by (rule no_vectors_no_call)+
qed

theorem vector_build_failure_witness:
  "\<not> new_iovec ((demo_platform (8, 0) :: 32 word platform)\<lparr>new_iovec := \<lambda>n. False\<rparr>) 2 \<and>
   OSFileSystem_readv ((demo_platform (8, 0) :: 32 word platform)\<lparr>new_iovec := \<lambda>n. False\<rparr>)
       quiet 9 11 12 13 2 =
     Inr (- 1, \<lparr>exception = Some OutOfMemoryError, errno = 0, syscalls = []\<rparr>) \<and>
   OSFileSystem_writev ((demo_platform (8, 0) :: 32 word platform)\<lparr>new_iovec := \<lambda>n. False\<rparr>)
       quiet 9 11 12 13 2 =
     Inr (- 1, \<lparr>exception = Some OutOfMemoryError, errno = 0, syscalls = []\<rparr>) \<and>
   new_iovec (demo_platform (8, 0) :: 32 word platform) 2 \<and>
   GetIntArrayElements (demo_platform (8, 0) :: 32 word platform) 11 = Inr [4096, 8192] \<and>
   GetIntArrayElements (demo_platform (8, 0) :: 32 word platform) 12 = Inr [0, 0] \<and>
   GetIntArrayElements (demo_platform (8, 0) :: 32 word platform) 14 = Inl NullPointerException \<and>
   OSFileSystem_readv (demo_platform (8, 0) :: 32 word platform) quiet 9 11 12 14 2 =
     Inr (- 1, \<lparr>exception = Some NullPointerException, errno = 0, syscalls = []\<rparr>) \<and>
   OSFileSystem_writev (demo_platform (8, 0) :: 32 word platform) quiet 9 11 12 14 2 =
     Inr (- 1, \<lparr>exception = Some NullPointerException, errno = 0, syscalls = []\<rparr>)"
proof -
  let ?N = "(demo_platform (8, 0) :: 32 word platform)\<lparr>new_iovec := \<lambda>n. False\<rparr>"
  let ?G = "demo_platform (8, 0) :: 32 word platform"
  have n: "\<not> new_iovec ?N 2" by simp
  have h: "new_iovec ?G 2" "GetIntArrayElements ?G 11 = Inr [4096, 8192]"
    "GetIntArrayElements ?G 12 = Inr [0, 0]"
    "GetIntArrayElements ?G 14 = Inl NullPointerException"
    by (simp_all add: demo_platform_def)
  from n vector_build_failure [where P = ?N and size' = 2 and env = quiet and fd = 9
      and jBuffers = 11 and jOffsets = 12 and jLengths = 13]
  have oom: "OSFileSystem_readv ?N quiet 9 11 12 13 2 =
        Inr (- 1, quiet\<lparr>exception := Some OutOfMemoryError\<rparr>)"
    "OSFileSystem_writev ?N quiet 9 11 12 13 2 =
        Inr (- 1, quiet\<lparr>exception := Some OutOfMemoryError\<rparr>)"
    by blast+
  from h vector_build_failure [where P = ?G and size' = 2 and env = quiet and fd = 9
      and jBuffers = 11 and jOffsets = 12 and jLengths = 14 and buffers = "[4096, 8192]"
      and offsets = "[0, 0]" and t = NullPointerException]
  have acc: "OSFileSystem_readv ?G quiet 9 11 12 14 2 =
        Inr (- 1, quiet\<lparr>exception := Some NullPointerException\<rparr>)"
    "OSFileSystem_writev ?G quiet 9 11 12 14 2 =
        Inr (- 1, quiet\<lparr>exception := Some NullPointerException\<rparr>)"
    by blast+
  from n h oom acc show ?thesis by (simp add: quiet_def)
qed

section \<open>The entries of the vector list\<close>

text \<open>
  C7: when the allocation succeeds and the three arrays are accessible and hold at least
  \<open>size\<close> elements each, the builder succeeds, the list has exactly \<open>size\<close> entries (none
  for a negative \<open>size\<close>), and entry \<open>i\<close> has the base \<open>buffers[i] + offsets[i]\<close> and the
  length \<open>lengths[i]\<close>. Base and length are the 32-bit values the source stores; \<open>iov_len\<close>
  is unsigned, so it reads a negative \<open>lengths[i]\<close> as that value plus \<open>2^32\<close>.
\<close>

theorem initIoVec_entries:
  assumes "new_iovec P size'"
    and "GetIntArrayElements P jBuffers = Inr buffers"
    and "GetIntArrayElements P jOffsets = Inr offsets"
    and "GetIntArrayElements P jLengths = Inr lengths"
    and "nat (sint size') \<le> length buffers"
    and "nat (sint size') \<le> length offsets"
    and "nat (sint size') \<le> length lengths"
  shows "\<exists>vectors. initIoVec P env jBuffers jOffsets jLengths size' = Inr (Some vectors, env)
           \<and> length vectors = nat (sint size')
           \<and> (\<forall>i < nat (sint size').
                 iov_base (vectors ! i) = buffers ! i + offsets ! i
               \<and> iov_len (vectors ! i) = lengths ! i)"
  using initIoVec_builds [OF assms, of env]
  by (simp add: vector_at_def pointer_of_jint_def size_t_of_jint_def)

theorem initIoVec_entries_witness:
  "new_iovec (demo_platform (8, 0) :: 32 word platform) 2 \<and>
   GetIntArrayElements (demo_platform (8, 0) :: 32 word platform) 11 = Inr [4096, 8192] \<and>
   GetIntArrayElements (demo_platform (8, 0) :: 32 word platform) 12 = Inr [0, 0] \<and>
   GetIntArrayElements (demo_platform (8, 0) :: 32 word platform) 13 = Inr [3, 5] \<and>
   nat (sint (2 :: jint)) \<le> length [4096, 8192 :: jint] \<and>
   nat (sint (2 :: jint)) \<le> length [0, 0 :: jint] \<and>
   nat (sint (2 :: jint)) \<le> length [3, 5 :: jint] \<and>
   (\<exists>vectors. initIoVec (demo_platform (8, 0) :: 32 word platform) quiet 11 12 13 2 =
       Inr (Some vectors, quiet)
     \<and> length vectors = 2
     \<and> iov_base (vectors ! 0) = 4096 \<and> iov_len (vectors ! 0) = 3
     \<and> iov_base (vectors ! 1) = 8192 \<and> iov_len (vectors ! 1) = 5)"
proof -
  let ?P = "demo_platform (8, 0) :: 32 word platform"
  have h: "new_iovec ?P 2" "GetIntArrayElements ?P 11 = Inr [4096, 8192]"
    "GetIntArrayElements ?P 12 = Inr [0, 0]" "GetIntArrayElements ?P 13 = Inr [3, 5]"
    by (simp_all add: demo_platform_def)
  have n: "nat (sint (2 :: jint)) \<le> length [4096, 8192 :: jint]"
    "nat (sint (2 :: jint)) \<le> length [0, 0 :: jint]"
    "nat (sint (2 :: jint)) \<le> length [3, 5 :: jint]"
    by simp_all
  from initIoVec_entries [OF h n, of quiet]
  obtain vectors where b: "initIoVec ?P quiet 11 12 13 2 = Inr (Some vectors, quiet)"
    and l: "length vectors = nat (sint (2 :: jint))"
    and a: "\<forall>i<nat (sint (2 :: jint)).
         iov_base (vectors ! i) = [4096, 8192] ! i + [0, 0] ! i \<and>
         iov_len (vectors ! i) = [3, 5] ! i"
    by blast
  from a [rule_format, of 0] have "iov_base (vectors ! 0) = 4096 \<and> iov_len (vectors ! 0) = 3"
    by simp
  moreover
  from a [rule_format, of 1] have "iov_base (vectors ! 1) = 8192 \<and> iov_len (vectors ! 1) = 5"
    by simp
  moreover from l have "length vectors = 2" by simp
  ultimately show ?thesis using h n b by blast
qed

section \<open>The offset handed to the transfer call\<close>

text \<open>
  C8: when the offset of \<open>transfer\<close> lies in the range of a 32-bit signed integer and
  \<open>off_t\<close> has at least 32 bits, the one system call \<open>transfer\<close> makes is \<open>sendfile\<close> with
  an offset whose value is the caller's.
\<close>

theorem transfer_offset_preserved:
  fixes P :: "('o::len word) platform"
  assumes "32 \<le> LENGTH('o)"
    and "- (2 ^ 31) \<le> sint offset" and "sint offset < 2 ^ 31"
    and "jniGetFDFromFileDescriptor P sd \<noteq> - 1"
  shows "syscalls (snd (OSFileSystem_transfer P env fd sd offset count)) =
           syscalls env @ [Sendfile (jniGetFDFromFileDescriptor P sd) fd
                             (off_t_of_jlong offset) (size_t_of_jlong count)]
         \<and> sint (off_t_of_jlong offset :: 'o word) = sint offset"
proof
  obtain r e where a: "sendfile P (jniGetFDFromFileDescriptor P sd) fd (off_t_of_jlong offset)
      (size_t_of_jlong count) = (r, e)"
    by (cases "sendfile P (jniGetFDFromFileDescriptor P sd) fd (off_t_of_jlong offset)
      (size_t_of_jlong count)")
  show "syscalls (snd (OSFileSystem_transfer P env fd sd offset count)) =
      syscalls env @ [Sendfile (jniGetFDFromFileDescriptor P sd) fd
        (off_t_of_jlong offset) (size_t_of_jlong count)]"
    by (simp add: transfer_after_resolve [OF refl assms(4) a])
  show "sint (off_t_of_jlong offset :: 'o word) = sint offset"
    by (rule sint_off_t_of_jlong [OF assms(1-3)])
qed

theorem transfer_offset_preserved_witness:
  "32 \<le> LENGTH(32) \<and> - (2 ^ 31) \<le> sint (2147483647 :: jlong) \<and>
   sint (2147483647 :: jlong) < 2 ^ 31 \<and>
   jniGetFDFromFileDescriptor (demo_platform (8, 0) :: 32 word platform) 21 \<noteq> - 1 \<and>
   syscalls (snd (OSFileSystem_transfer (demo_platform (8, 0) :: 32 word platform) quiet 9 21
                    2147483647 100)) =
     [Sendfile 7 9 (off_t_of_jlong 2147483647) 100] \<and>
   sint (off_t_of_jlong 2147483647 :: 32 word) = 2147483647"
proof -
  let ?G = "demo_platform (8, 0) :: 32 word platform"
  have h: "32 \<le> LENGTH(32)" "- (2 ^ 31) \<le> sint (2147483647 :: jlong)"
    "sint (2147483647 :: jlong) < 2 ^ 31" "jniGetFDFromFileDescriptor ?G 21 \<noteq> - 1"
    by (simp_all add: demo_platform_def)
  have s: "jniGetFDFromFileDescriptor ?G 21 = 7" "size_t_of_jlong 100 = 100"
    by (simp_all add: demo_platform_def size_t_of_jlong_def)
  from transfer_offset_preserved [OF h, of quiet 9 100] h s
  show ?thesis by (simp add: quiet_def)
qed

section \<open>Wrap-around of base plus offset\<close>

text \<open>
  C9: the base of entry \<open>i\<close> is the 32-bit sum of \<open>buffers[i]\<close> and \<open>offsets[i]\<close>: as a
  two's-complement value it is the sum of the two signed values wrapped into 32 bits, as
  an address it is that sum modulo \<open>2^32\<close>, and when the sum of the signed values leaves
  the 32-bit signed range the base differs from it.
\<close>

theorem initIoVec_base_wraps:
  assumes "new_iovec P size'"
    and "GetIntArrayElements P jBuffers = Inr buffers"
    and "GetIntArrayElements P jOffsets = Inr offsets"
    and "GetIntArrayElements P jLengths = Inr lengths"
    and "nat (sint size') \<le> length buffers"
    and "nat (sint size') \<le> length offsets"
    and "nat (sint size') \<le> length lengths"
    and "i < nat (sint size')"
  shows "\<exists>vectors. initIoVec P env jBuffers jOffsets jLengths size' = Inr (Some vectors, env)
           \<and> sint (iov_base (vectors ! i)) =
               signed_take_bit 31 (sint (buffers ! i) + sint (offsets ! i))
           \<and> uint (iov_base (vectors ! i)) = (sint (buffers ! i) + sint (offsets ! i)) mod 2 ^ 32
           \<and> (\<not> (- (2 ^ 31) \<le> sint (buffers ! i) + sint (offsets ! i) \<and>
                  sint (buffers ! i) + sint (offsets ! i) < 2 ^ 31) \<longrightarrow>
                sint (iov_base (vectors ! i)) \<noteq> sint (buffers ! i) + sint (offsets ! i))"
proof -
  let ?b = "buffers ! i" and ?o = "offsets ! i"
  have s: "sint (?b + ?o) = signed_take_bit 31 (sint ?b + sint ?o)"
    by (simp add: sint_word_add)
  have u: "uint (?b + ?o) = (sint ?b + sint ?o) mod 2 ^ 32"
    by (simp add: uint_sint take_bit_eq_mod s signed_take_bit_eq_take_bit_shift mod_simps)
  have n: "\<not> (- (2 ^ 31) \<le> sint ?b + sint ?o \<and> sint ?b + sint ?o < 2 ^ 31) \<longrightarrow>
      sint (?b + ?o) \<noteq> sint ?b + sint ?o"
    unfolding s by (simp only: signed_take_bit_int_eq_self_iff) simp
  have "initIoVec P env jBuffers jOffsets jLengths size' =
      Inr (Some (map (vector_at buffers offsets lengths) [0..<nat (sint size')]), env)"
    by (rule initIoVec_builds [OF assms(1-7)])
  moreover
  have "iov_base (map (vector_at buffers offsets lengths) [0..<nat (sint size')] ! i) = ?b + ?o"
    using assms(8) by (simp add: vector_at_def pointer_of_jint_def)
  ultimately show ?thesis using s u n by simp
qed

theorem initIoVec_base_wraps_witness:
  "new_iovec ((demo_platform (8, 0) :: 32 word platform)
      \<lparr>GetIntArrayElements := \<lambda>a. Inr (if a = 11 then [2147483647] else [1])\<rparr>) 1 \<and>
   (0 :: nat) < nat (sint (1 :: jint)) \<and>
   sint (2147483647 :: jint) + sint (1 :: jint) = 2147483648 \<and>
   (\<exists>vectors. initIoVec
       ((demo_platform (8, 0) :: 32 word platform)
          \<lparr>GetIntArrayElements := \<lambda>a. Inr (if a = 11 then [2147483647] else [1])\<rparr>)
       quiet 11 12 13 1 = Inr (Some vectors, quiet)
     \<and> sint (iov_base (vectors ! 0)) = - 2147483648
     \<and> uint (iov_base (vectors ! 0)) = 2147483648
     \<and> sint (iov_base (vectors ! 0)) \<noteq> sint (2147483647 :: jint) + sint (1 :: jint))"
proof -
  let ?P = "(demo_platform (8, 0) :: 32 word platform)
          \<lparr>GetIntArrayElements := \<lambda>a. Inr (if a = 11 then [2147483647] else [1])\<rparr>"
  have h: "new_iovec ?P 1" "GetIntArrayElements ?P 11 = Inr [2147483647]"
    "GetIntArrayElements ?P 12 = Inr [1]" "GetIntArrayElements ?P 13 = Inr [1]"
    by (simp_all add: demo_platform_def)
  have n: "nat (sint (1 :: jint)) \<le> length [2147483647 :: jint]"
    "nat (sint (1 :: jint)) \<le> length [1 :: jint]"
    "nat (sint (1 :: jint)) \<le> length [1 :: jint]"
    "0 < nat (sint (1 :: jint))"
    by simp_all
  from initIoVec_base_wraps [OF h n, of quiet] h(1)
  show ?thesis by simp
qed

section \<open>A zero result of the read, whatever was asked for\<close>

text \<open>
  C10: \<open>readv\<close> turns a zero result of the system call into -1 with no condition on the
  vector list: the instance is a call with \<open>count = 0\<close>, which asks for no byte and gets
  the answer the end of a stream gets.
\<close>

theorem readv_zero_result:
  assumes "initIoVec P env jBuffers jOffsets jLengths size' = Inr (Some vectors, env1)"
    and "readv P fd vectors size' = (0, e)"
  shows "OSFileSystem_readv P env fd jBuffers jOffsets jLengths size' =
           Inr (- 1, env1\<lparr>errno := e, syscalls := syscalls env1 @ [Readv fd vectors size']\<rparr>)"
  using assms by (simp add: readv_after_build)

theorem readv_zero_result_witness:
  "initIoVec (demo_platform (0, 0) :: 32 word platform) quiet 11 12 13 0 =
     Inr (Some [], quiet) \<and>
   requested [] = 0 \<and>
   readv (demo_platform (0, 0) :: 32 word platform) 9 [] 0 = (0, 0) \<and>
   OSFileSystem_readv (demo_platform (0, 0) :: 32 word platform) quiet 9 11 12 13 0 =
     Inr (- 1, \<lparr>exception = None, errno = 0, syscalls = [Readv 9 [] 0]\<rparr>)"
proof -
  let ?Z = "demo_platform (0, 0) :: 32 word platform"
  have b: "initIoVec ?Z quiet 11 12 13 0 = Inr (Some [], quiet)"
    by (rule demo_build_empty)
  have z: "readv ?Z 9 [] 0 = (0, 0)" by (simp add: demo_platform_def)
  from readv_zero_result [OF b z] b z show ?thesis
    by (simp add: quiet_def requested_def)
qed

end
